theory Spec2Isabelle
  imports Main "HOL-Library.Word" "HOL-Library.Sublist" "HOL-Library.AList_Mapping"
begin

section \<open>Data model\<close>

text \<open>
  Go strings are byte sequences: \<^typ>\<open>string\<close> (a list of 8-bit \<^typ>\<open>char\<close>).
  Raw certificate data (\<open>[]byte\<close>) is a list of 8-bit words.
\<close>

type_synonym byte = "8 word"

text \<open>
  \<open>sha256.Sum256\<close> returns a \<open>[32]byte\<close>: an array whose length is part of its type.
\<close>

typedef byte32 = "{bs :: byte list. length bs = 32}"
  by (rule exI [of _ "replicate 32 0"]) simp

text \<open>
  The two fields of \<open>x509.Certificate\<close> that the verifier reads: \<open>cert.Raw\<close> and
  \<open>cert.Subject.CommonName\<close>.
\<close>

record pkix_Name =
  CommonName :: string

record Certificate =
  Raw :: "byte list"
  Subject :: pkix_Name

text \<open>The registry is a Go \<open>map[string]string\<close>: identity name to fingerprint.\<close>

type_synonym registry = "(string, string) mapping"

text \<open>
  The errors that \<open>verifyClientCertificate\<close> builds with \<open>errors.New\<close> and
  \<open>fmt.Errorf\<close>; \<open>errorText\<close> is the message of each (what \<open>err.Error()\<close> returns).
  \<open>ParseFailed\<close> wraps the message of the error of \<open>x509.ParseCertificate\<close>.
\<close>

datatype verify_error =
    NoCertificateProvided
  | ParseFailed string
  | CNNotAuthorized string
  | FingerprintMismatch string

fun errorText :: "verify_error \<Rightarrow> string" where
  "errorText NoCertificateProvided = ''no client certificate provided''"
| "errorText (ParseFailed e) = ''failed to parse client certificate: '' @ e"
| "errorText (CNNotAuthorized cn) = ''client CN '' @ [CHR 0x27] @ cn @ [CHR 0x27] @ '' not authorized''"
| "errorText (FingerprintMismatch cn) = ''client fingerprint mismatch for CN '' @ [CHR 0x27] @ cn @ [CHR 0x27]"

section \<open>The fingerprint rendering of verifyClientCertificate\<close>

text \<open>
  \<open>fmt.Fprintf(&buf, "%02X", b)\<close>: the byte as two upper-case hexadecimal digits.
\<close>

definition hexDigit :: "nat \<Rightarrow> char" where
  "hexDigit n = ''0123456789ABCDEF'' ! (n mod 16)"

definition fmt02X :: "byte \<Rightarrow> string" where
  "fmt02X b = [hexDigit (unat b div 16), hexDigit (unat b mod 16)]"

text \<open>
  The loop \<open>for i, b := range hash\<close>, with the builder \<open>buf\<close> as its state: \<open>n\<close> is
  \<open>len(hash)\<close>, \<open>i\<close> the index of the next byte, and the comparison \<open>i < len(hash)-1\<close>
  is one of Go's signed \<open>int\<close>.
\<close>

fun renderLoop :: "nat \<Rightarrow> nat \<Rightarrow> byte list \<Rightarrow> string \<Rightarrow> string" where
  "renderLoop n i [] buf = buf"
| "renderLoop n i (b # bs) buf =
     renderLoop n (i + 1) bs
       (if int i < int n - 1 then buf @ fmt02X b @ '':'' else buf @ fmt02X b)"

definition renderBytes :: "byte list \<Rightarrow> string" where
  "renderBytes hash = renderLoop (length hash) 0 hash []"

definition renderFingerprint :: "byte32 \<Rightarrow> string" where
  "renderFingerprint hash = renderBytes (Rep_byte32 hash)"

section \<open>verifyClientCertificate\<close>

text \<open>
  \<open>x509.ParseCertificate\<close> and \<open>sha256.Sum256\<close> belong to Go's standard library and are
  parameters: \<open>parse\<close> returns the message of its error or the certificate, \<open>sha256Sum\<close> the
  digest. The result is Go's \<open>error\<close>: \<open>None\<close> is \<open>nil\<close>. The second argument of the
  source (the verified chains) is ignored there and left out here; so are the
  \<open>log.Printf\<close> lines, which do not change the result.
\<close>

definition verifyClientCertificate ::
  "(byte list \<Rightarrow> string + Certificate) \<Rightarrow> (byte list \<Rightarrow> byte32) \<Rightarrow>
   byte list list \<Rightarrow> registry \<Rightarrow> verify_error option" where
  "verifyClientCertificate parse sha256Sum rawCerts knownClients =
     (if length rawCerts = 0 then Some NoCertificateProvided
      else case parse (rawCerts ! 0) of
        Inl err \<Rightarrow> Some (ParseFailed err)
      | Inr cert \<Rightarrow>
          let hash = sha256Sum (Raw cert);
              fingerprint = renderFingerprint hash;
              cn = CommonName (Subject cert)
          in (case Mapping.lookup knownClients cn of
                None \<Rightarrow> Some (CNNotAuthorized cn)
              | Some knownFingerprint \<Rightarrow>
                  if knownFingerprint \<noteq> fingerprint then Some (FingerprintMismatch cn)
                  else None))"

section \<open>The string functions of loadKnownClients\<close>

text \<open>
  \<open>strings.TrimSpace\<close> removes all leading and trailing white space, as defined by
  Unicode, from a UTF-8 string. \<open>spaceRunes\<close> lists the UTF-8 encodings of the code points
  of \<open>unicode.IsSpace\<close>: tab, line feed, vertical tab, form feed, carriage return, space,
  U+0085, U+00A0, U+1680, U+2000 to U+200A, U+2028, U+2029, U+202F, U+205F and U+3000.
  A byte sequence that is not the valid encoding of one of them is no white space.
\<close>

definition spaceRunes :: "string list" where
  "spaceRunes =
     [[CHR 0x09], [CHR 0x0A], [CHR 0x0B], [CHR 0x0C], [CHR 0x0D], [CHR 0x20],
      [CHR 0xC2, CHR 0x85], [CHR 0xC2, CHR 0xA0],
      [CHR 0xE1, CHR 0x9A, CHR 0x80],
      [CHR 0xE2, CHR 0x80, CHR 0x80], [CHR 0xE2, CHR 0x80, CHR 0x81],
      [CHR 0xE2, CHR 0x80, CHR 0x82], [CHR 0xE2, CHR 0x80, CHR 0x83],
      [CHR 0xE2, CHR 0x80, CHR 0x84], [CHR 0xE2, CHR 0x80, CHR 0x85],
      [CHR 0xE2, CHR 0x80, CHR 0x86], [CHR 0xE2, CHR 0x80, CHR 0x87],
      [CHR 0xE2, CHR 0x80, CHR 0x88], [CHR 0xE2, CHR 0x80, CHR 0x89],
      [CHR 0xE2, CHR 0x80, CHR 0x8A],
      [CHR 0xE2, CHR 0x80, CHR 0xA8], [CHR 0xE2, CHR 0x80, CHR 0xA9],
      [CHR 0xE2, CHR 0x80, CHR 0xAF],
      [CHR 0xE2, CHR 0x81, CHR 0x9F],
      [CHR 0xE3, CHR 0x80, CHR 0x80]]"

text \<open>
  The width in bytes of the rune of \<open>runes\<close> that \<open>s\<close> starts with, 0 when it starts
  with none; \<open>dropRunes\<close> removes such runes from the front as long as there is one.
\<close>

definition runeWidth :: "string list \<Rightarrow> string \<Rightarrow> nat" where
  "runeWidth runes s =
     (case find (\<lambda>r. prefix r s) runes of None \<Rightarrow> 0 | Some r \<Rightarrow> length r)"

fun dropRunes :: "string list \<Rightarrow> string \<Rightarrow> string" where
  "dropRunes runes [] = []"
| "dropRunes runes (c # cs) =
     (if runeWidth runes (c # cs) = 0 then c # cs
      else dropRunes runes (drop (runeWidth runes (c # cs) - 1) cs))"

definition TrimLeftSpace :: "string \<Rightarrow> string" where
  "TrimLeftSpace s = dropRunes spaceRunes s"

definition TrimRightSpace :: "string \<Rightarrow> string" where
  "TrimRightSpace s = rev (dropRunes (map rev spaceRunes) (rev s))"

definition TrimSpace :: "string \<Rightarrow> string" where
  "TrimSpace s = TrimRightSpace (TrimLeftSpace s)"

definition HasPrefix :: "string \<Rightarrow> string \<Rightarrow> bool" where
  "HasPrefix s pre = (length s \<ge> length pre \<and> take (length pre) s = pre)"

text \<open>
  \<open>strings.SplitN(s, sep, n)\<close> for a separator of one byte and \<open>n \<ge> 0\<close>: at most \<open>n\<close>
  substrings, the last one the unsplit remainder.
\<close>

fun SplitN :: "string \<Rightarrow> char \<Rightarrow> nat \<Rightarrow> string list" where
  "SplitN s sep 0 = []"
| "SplitN s sep (Suc 0) = [s]"
| "SplitN s sep (Suc (Suc n)) =
     (if sep \<in> set s
      then takeWhile (\<lambda>c. c \<noteq> sep) s # SplitN (tl (dropWhile (\<lambda>c. c \<noteq> sep) s)) sep (Suc n)
      else [s])"

text \<open>
  \<open>strings.ToUpper\<close>: a string of ASCII bytes only is mapped byte by byte (and returned
  as it is when it has no lower-case letter); any other string goes through Go's Unicode
  case tables, which are the parameter \<open>unicodeUpper\<close>.
\<close>

definition upperByte :: "char \<Rightarrow> char" where
  "upperByte c =
     (if (97::nat) \<le> of_char c \<and> of_char c \<le> (122::nat) then char_of (of_char c - (32::nat)) else c)"

definition isASCII :: "string \<Rightarrow> bool" where
  "isASCII s = list_all (\<lambda>c. of_char c < (128::nat)) s"

definition hasLower :: "string \<Rightarrow> bool" where
  "hasLower s = list_ex (\<lambda>c. (97::nat) \<le> of_char c \<and> of_char c \<le> (122::nat)) s"

definition ToUpper :: "(string \<Rightarrow> string) \<Rightarrow> string \<Rightarrow> string" where
  "ToUpper unicodeUpper s =
     (if isASCII s then (if \<not> hasLower s then s else map upperByte s)
      else unicodeUpper s)"

section \<open>loadKnownClients\<close>

text \<open>
  What \<open>os.Open\<close> and the \<open>bufio.Scanner\<close> give for a path: the message of the error
  of \<open>os.Open\<close>, or the lines that \<open>scanner.Scan\<close> delivered (\<open>scanner.Text()\<close> of each)
  and the error \<open>scanner.Err()\<close> it stopped with, if any.
\<close>

record scan =
  scanned :: "string list"
  scanErr :: "string option"

text \<open>
  The errors of \<open>loadKnownClients\<close>, each with the file path and the message of the
  error it wraps, and the three \<open>log.Printf\<close> lines, the first two with the line number.
\<close>

datatype load_error =
    OpenFailed string string
  | ReadFailed string string

fun loadErrorText :: "load_error \<Rightarrow> string" where
  "loadErrorText (OpenFailed path e) = ''failed to open known clients file '' @ path @ '': '' @ e"
| "loadErrorText (ReadFailed path e) = ''error reading known clients file '' @ path @ '': '' @ e"

datatype log_line =
    SkipInvalidFormat nat
  | SkipEmptyField nat
  | NoValidEntries

text \<open>
  The body of the loop for one line of text: what it does with the line.
\<close>

datatype line_result =
    Ignored
  | InvalidFormat
  | EmptyField
  | Entry string string

definition scanLine :: "(string \<Rightarrow> string) \<Rightarrow> string \<Rightarrow> line_result" where
  "scanLine unicodeUpper text =
     (let line = TrimSpace text in
      if line = [] \<or> HasPrefix line ''#'' then Ignored
      else let parts = SplitN line (CHR '' '') 2 in
        if length parts \<noteq> 2 then InvalidFormat
        else let cn = TrimSpace (parts ! 0);
                 fingerprint = ToUpper unicodeUpper (TrimSpace (parts ! 1))
             in if cn = [] \<or> fingerprint = [] then EmptyField
                else Entry cn fingerprint)"

text \<open>
  The loop \<open>for scanner.Scan()\<close>: its state is the map \<open>clients\<close>, the log written so
  far and \<open>lineNumber\<close>.
\<close>

fun scanLoop ::
  "(string \<Rightarrow> string) \<Rightarrow> nat \<Rightarrow> string list \<Rightarrow> registry \<times> log_line list \<Rightarrow>
   registry \<times> log_line list" where
  "scanLoop unicodeUpper lineNumber [] st = st"
| "scanLoop unicodeUpper lineNumber (text # rest) (clients, logs) =
     scanLoop unicodeUpper (lineNumber + 1) rest
       (case scanLine unicodeUpper text of
          Ignored \<Rightarrow> (clients, logs)
        | InvalidFormat \<Rightarrow> (clients, logs @ [SkipInvalidFormat (lineNumber + 1)])
        | EmptyField \<Rightarrow> (clients, logs @ [SkipEmptyField (lineNumber + 1)])
        | Entry cn fingerprint \<Rightarrow> (Mapping.update cn fingerprint clients, logs))"

text \<open>
  \<open>loadKnownClients\<close> returns the map or the error, and the log lines it wrote. The
  test \<open>len(clients) == 0\<close> is \<^const>\<open>Mapping.is_empty\<close>.
\<close>

definition loadKnownClients ::
  "(string \<Rightarrow> string) \<Rightarrow> (string \<Rightarrow> string + scan) \<Rightarrow> string \<Rightarrow>
   (load_error + registry) \<times> log_line list" where
  "loadKnownClients unicodeUpper osOpen filePath =
     (case osOpen filePath of
        Inl err \<Rightarrow> (Inl (OpenFailed filePath err), [])
      | Inr file \<Rightarrow>
          let (clients, logs) = scanLoop unicodeUpper 0 (scanned file) (Mapping.empty, []) in
          (case scanErr file of
             Some err \<Rightarrow> (Inl (ReadFailed filePath err), logs)
           | None \<Rightarrow>
               if Mapping.is_empty clients then (Inr clients, logs @ [NoValidEntries])
               else (Inr clients, logs)))"

section \<open>The canonical form of a fingerprint\<close>

text \<open>
  Upper-case hexadecimal pairs joined by single colons: a pair, or a pair, a colon and a
  canonical string. \<open>joinHex\<close> is the rendering written by recursion on the bytes.
\<close>

definition isUpperHex :: "char \<Rightarrow> bool" where
  "isUpperHex c = (c \<in> set ''0123456789ABCDEF'')"

fun canonicalFingerprint :: "string \<Rightarrow> bool" where
  "canonicalFingerprint [a, b] = (isUpperHex a \<and> isUpperHex b)"
| "canonicalFingerprint (a # b # c # rest) =
     (isUpperHex a \<and> isUpperHex b \<and> c = CHR '':'' \<and> canonicalFingerprint rest)"
| "canonicalFingerprint _ = False"

fun joinHex :: "byte list \<Rightarrow> string" where
  "joinHex [] = []"
| "joinHex [b] = fmt02X b"
| "joinHex (b # b' # bs) = fmt02X b @ '':'' @ joinHex (b' # bs)"

section \<open>Example data\<close>

text \<open>
  A parser that knows one certificate, of subject name \<open>my_secure_client\<close>, and rejects
  every other byte sequence; a digest function of one value.
\<close>

definition exampleRaw :: "byte list" where
  "exampleRaw = [0x30, 0x82, 0x01, 0x0A]"

definition exampleCert :: Certificate where
  "exampleCert = \<lparr>Raw = exampleRaw, Subject = \<lparr>CommonName = ''my_secure_client''\<rparr>\<rparr>"

definition exampleParse :: "byte list \<Rightarrow> string + Certificate" where
  "exampleParse raw =
     (if raw = exampleRaw then Inr exampleCert else Inl ''x509: malformed certificate'')"

definition exampleDigest :: "byte list" where
  "exampleDigest =
     [0xAA, 0x11, 0x22, 0x33, 0x44, 0x55, 0x66, 0x77, 0x88, 0x99, 0x00, 0xAB, 0xCD, 0xEF, 0x01, 0x23,
      0x45, 0x67, 0x89, 0x0A, 0xBC, 0xDE, 0xF0, 0x12, 0x34, 0x56, 0x78, 0x9A, 0xBB, 0xCC, 0xDD, 0xFF]"

definition exampleSum256 :: "byte list \<Rightarrow> byte32" where
  "exampleSum256 raw = Abs_byte32 exampleDigest"

definition exampleFingerprint :: string where
  "exampleFingerprint =
     ''AA:11:22:33:44:55:66:77:88:99:00:AB:CD:EF:01:23:45:67:89:0A:BC:DE:F0:12:34:56:78:9A:BB:CC:DD:FF''"

section \<open>The fingerprint: shape and length\<close>

lemma renderLoop_joinHex:
  "i + length bs = n \<Longrightarrow> renderLoop n i bs buf = buf @ joinHex bs"
proof (induction bs arbitrary: i buf)
  case Nil
  then show ?case by simp
next
  case (Cons b bs)
  show ?case
  proof (cases bs)
    case Nil
    with Cons.prems show ?thesis by simp
  next
    case (Cons b' bs')
    with Cons.prems have "int i < int n - 1" by auto
    moreover have "(i + 1) + length bs = n" using Cons.prems by simp
    ultimately show ?thesis using Cons.IH [of "i + 1"] Cons by simp
  qed
qed

lemma renderBytes_joinHex: "renderBytes hash = joinHex hash"
  by (simp add: renderBytes_def renderLoop_joinHex)

lemma isUpperHex_hexDigit: "isUpperHex (hexDigit n)"
proof -
  have "n mod 16 < length ''0123456789ABCDEF''" by simp
  then have "''0123456789ABCDEF'' ! (n mod 16) \<in> set ''0123456789ABCDEF''"
    by (rule nth_mem)
  then show ?thesis by (simp only: isUpperHex_def hexDigit_def)
qed

lemma canonical_joinHex: "bs \<noteq> [] \<Longrightarrow> canonicalFingerprint (joinHex bs)"
  by (induction bs rule: joinHex.induct) (simp_all add: fmt02X_def isUpperHex_hexDigit)

lemma length_joinHex: "bs \<noteq> [] \<Longrightarrow> length (joinHex bs) + 1 = 3 * length bs"
  by (induction bs rule: joinHex.induct) (simp_all add: fmt02X_def)

lemma Rep_byte32_length: "length (Rep_byte32 h) = 32"
  using Rep_byte32 [of h] by simp

lemma Rep_byte32_nonempty: "Rep_byte32 h \<noteq> []"
  using Rep_byte32_length [of h] by auto

lemma length_renderFingerprint: "length (renderFingerprint h) = 95"
  using length_joinHex [OF Rep_byte32_nonempty, of h] Rep_byte32_length [of h]
  by (simp add: renderFingerprint_def renderBytes_joinHex)

lemma canonical_renderFingerprint: "canonicalFingerprint (renderFingerprint h)"
  using canonical_joinHex [OF Rep_byte32_nonempty, of h]
  by (simp add: renderFingerprint_def renderBytes_joinHex)

lemma isUpperHex_not_colon: "isUpperHex c \<Longrightarrow> c \<noteq> CHR '':''"
  by (auto simp: isUpperHex_def)

lemma canonical_hd: "canonicalFingerprint s \<Longrightarrow> isUpperHex (hd s)"
  by (induction s rule: canonicalFingerprint.induct) simp_all

lemma canonical_last: "canonicalFingerprint s \<Longrightarrow> isUpperHex (last s)"
  by (induction s rule: canonicalFingerprint.induct) (auto split: if_splits)

lemma renderBytes_exampleDigest: "renderBytes exampleDigest = exampleFingerprint"
  by code_simp

lemma Rep_exampleSum256: "Rep_byte32 (exampleSum256 raw) = exampleDigest"
  by (simp add: exampleSum256_def Abs_byte32_inverse exampleDigest_def)

lemma renderFingerprint_example: "renderFingerprint (exampleSum256 raw) = exampleFingerprint"
  by (simp add: renderFingerprint_def Rep_exampleSum256 renderBytes_exampleDigest)

text \<open>
  C6. The fingerprint of a certificate's bytes is a function of these bytes (equal bytes
  give equal strings), and it has the canonical form: upper-case hexadecimal pairs joined
  by single colons, with no colon at the start or at the end.
\<close>

theorem fingerprint_canonical:
  "canonicalFingerprint (renderFingerprint (sha256Sum raw)) \<and>
   hd (renderFingerprint (sha256Sum raw)) \<noteq> CHR '':'' \<and>
   last (renderFingerprint (sha256Sum raw)) \<noteq> CHR '':'' \<and>
   (raw' = raw \<longrightarrow> renderFingerprint (sha256Sum raw') = renderFingerprint (sha256Sum raw))"
  using canonical_renderFingerprint [of "sha256Sum raw"]
  by (simp add: isUpperHex_not_colon canonical_hd canonical_last)

theorem fingerprint_canonical_witness:
  "canonicalFingerprint (renderFingerprint (exampleSum256 exampleRaw)) \<and>
   renderFingerprint (exampleSum256 exampleRaw) = exampleFingerprint"
  using fingerprint_canonical [of exampleSum256 exampleRaw exampleRaw]
  by (simp add: renderFingerprint_example)

section \<open>The decisions of verifyClientCertificate\<close>

lemma verify_Nil: "verifyClientCertificate parse sha256Sum [] reg = Some NoCertificateProvided"
  by (simp add: verifyClientCertificate_def)

lemma verify_Cons_parsed:
  "parse leaf = Inr cert \<Longrightarrow>
   verifyClientCertificate parse sha256Sum (leaf # rest) reg =
     (case Mapping.lookup reg (CommonName (Subject cert)) of
        None \<Rightarrow> Some (CNNotAuthorized (CommonName (Subject cert)))
      | Some known \<Rightarrow>
          if known \<noteq> renderFingerprint (sha256Sum (Raw cert))
          then Some (FingerprintMismatch (CommonName (Subject cert))) else None)"
  by (simp add: verifyClientCertificate_def Let_def)

text \<open>
  C1. The verifier decides as follows, for every list of presented certificates and every
  registry: the empty list fails with the error "no client certificate provided"; a leaf
  whose subject name is no key of the registry fails with the error "not authorized"; a
  leaf whose name is a key with another fingerprint than the computed one fails with the
  error "fingerprint mismatch"; a leaf whose name is a key with the computed fingerprint
  succeeds. The errors "not authorized" and "fingerprint mismatch" differ, and so do their
  messages, whatever the names in them.
\<close>

theorem verifyClientCertificate_decision:
  "verifyClientCertificate parse sha256Sum [] reg = Some NoCertificateProvided \<and>
   (parse leaf = Inr cert \<and> Mapping.lookup reg (CommonName (Subject cert)) = None \<longrightarrow>
      verifyClientCertificate parse sha256Sum (leaf # rest) reg =
        Some (CNNotAuthorized (CommonName (Subject cert)))) \<and>
   (parse leaf = Inr cert \<and> Mapping.lookup reg (CommonName (Subject cert)) = Some known \<and>
    known \<noteq> renderFingerprint (sha256Sum (Raw cert)) \<longrightarrow>
      verifyClientCertificate parse sha256Sum (leaf # rest) reg =
        Some (FingerprintMismatch (CommonName (Subject cert)))) \<and>
   (parse leaf = Inr cert \<and>
    Mapping.lookup reg (CommonName (Subject cert)) =
      Some (renderFingerprint (sha256Sum (Raw cert))) \<longrightarrow>
      verifyClientCertificate parse sha256Sum (leaf # rest) reg = None) \<and>
   CNNotAuthorized cn \<noteq> FingerprintMismatch cn' \<and>
   errorText (CNNotAuthorized cn) \<noteq> errorText (FingerprintMismatch cn')"
  by (simp add: verify_Nil verify_Cons_parsed)

theorem verifyClientCertificate_decision_witness:
  "verifyClientCertificate exampleParse exampleSum256 [exampleRaw] Mapping.empty =
     Some (CNNotAuthorized ''my_secure_client'') \<and>
   verifyClientCertificate exampleParse exampleSum256 [exampleRaw]
     (Mapping.update ''my_secure_client'' ''AA:11'' Mapping.empty) =
     Some (FingerprintMismatch ''my_secure_client'') \<and>
   verifyClientCertificate exampleParse exampleSum256 [exampleRaw]
     (Mapping.update ''my_secure_client'' exampleFingerprint Mapping.empty) = None"
proof -
  have p: "exampleParse exampleRaw = Inr exampleCert"
    by (simp add: exampleParse_def)
  have cn: "CommonName (Subject exampleCert) = ''my_secure_client''"
    by (simp add: exampleCert_def)
  have ne: "''AA:11'' \<noteq> exampleFingerprint"
    by (simp add: exampleFingerprint_def)
  note d = verifyClientCertificate_decision [where parse = exampleParse
      and sha256Sum = exampleSum256 and leaf = exampleRaw and cert = exampleCert and rest = "[]"]
  show ?thesis
    using d [where reg = Mapping.empty]
      d [where reg = "Mapping.update ''my_secure_client'' ''AA:11'' Mapping.empty"
         and known = "''AA:11''"]
      d [where reg = "Mapping.update ''my_secure_client'' exampleFingerprint Mapping.empty"]
      p cn ne
    by (simp add: renderFingerprint_example)
qed

text \<open>
  C10. When the list of presented certificates is not empty and its first element does
  not parse, the verifier returns the error "failed to parse client certificate", which
  wraps the parser's error, whatever the registry holds.
\<close>

theorem verifyClientCertificate_parse_error:
  "rawCerts \<noteq> [] \<Longrightarrow> parse (hd rawCerts) = Inl err \<Longrightarrow>
   verifyClientCertificate parse sha256Sum rawCerts reg = Some (ParseFailed err) \<and>
   errorText (ParseFailed err) = ''failed to parse client certificate: '' @ err"
  by (cases rawCerts) (simp_all add: verifyClientCertificate_def)

theorem verifyClientCertificate_parse_error_witness:
  "[[0x00 :: byte]] \<noteq> [] \<and> exampleParse (hd [[0x00]]) = Inl ''x509: malformed certificate'' \<and>
   verifyClientCertificate exampleParse exampleSum256 [[0x00]]
     (Mapping.update ''my_secure_client'' exampleFingerprint Mapping.empty) =
     Some (ParseFailed ''x509: malformed certificate'')"
proof -
  have p: "exampleParse (hd [[0x00]]) = Inl ''x509: malformed certificate''"
    by (simp add: exampleParse_def exampleRaw_def)
  show ?thesis
    using verifyClientCertificate_parse_error [where rawCerts = "[[0x00]]"
        and parse = exampleParse and err = "''x509: malformed certificate''"
        and sha256Sum = exampleSum256
        and reg = "Mapping.update ''my_secure_client'' exampleFingerprint Mapping.empty"] p
    by simp
qed

text \<open>
  C8, as the claim states it: the rendered fingerprint is 36 bytes long. It is not, for
  the example digest.
\<close>

theorem fingerprint_length_not_36:
  "length (renderFingerprint (exampleSum256 exampleRaw)) \<noteq> 36"
  by (simp add: renderFingerprint_example exampleFingerprint_def)

text \<open>
  C8, amended. For every certificate the rendered fingerprint is 95 bytes long (32 pairs of
  hexadecimal digits and 31 colons), and a certificate whose subject name is stored in
  the registry with that fingerprint is accepted.
\<close>

theorem fingerprint_length_95:
  "length (renderFingerprint (sha256Sum (Raw cert))) = 95 \<and>
   (parse leaf = Inr cert \<and>
    Mapping.lookup reg (CommonName (Subject cert)) =
      Some (renderFingerprint (sha256Sum (Raw cert))) \<longrightarrow>
    verifyClientCertificate parse sha256Sum (leaf # rest) reg = None)"
  by (simp add: length_renderFingerprint verify_Cons_parsed)

theorem fingerprint_length_95_witness:
  "length (renderFingerprint (exampleSum256 (Raw exampleCert))) = 95 \<and>
   exampleParse exampleRaw = Inr exampleCert \<and>
   Mapping.lookup (Mapping.update ''my_secure_client'' exampleFingerprint Mapping.empty)
     (CommonName (Subject exampleCert)) = Some exampleFingerprint \<and>
   verifyClientCertificate exampleParse exampleSum256 [exampleRaw]
     (Mapping.update ''my_secure_client'' exampleFingerprint Mapping.empty) = None"
proof -
  have p: "exampleParse exampleRaw = Inr exampleCert"
    by (simp add: exampleParse_def)
  have cn: "CommonName (Subject exampleCert) = ''my_secure_client''"
    by (simp add: exampleCert_def)
  show ?thesis
    using fingerprint_length_95 [where sha256Sum = exampleSum256 and cert = exampleCert
        and parse = exampleParse and leaf = exampleRaw and rest = "[]"
        and reg = "Mapping.update ''my_secure_client'' exampleFingerprint Mapping.empty"] p cn
    by (simp add: renderFingerprint_example)
qed

end
